theory Spec2Isabelle
  imports Main
begin

section \<open>Configuration of the installer\<close>

text \<open>
  The constants of \<^verbatim>\<open>ChatterboxInstaller.py\<close>, lines 18 to 48. A Python \<^verbatim>\<open>str\<close> is a
  \<^typ>\<open>string\<close>; all strings of the configuration are ASCII.
\<close>

definition VENV_NAME :: string where
  "VENV_NAME = ''Chatterbox_TTS''"

definition MODEL_DIR :: string where
  "MODEL_DIR = ''Model''"

definition ORIGINAL_FILES :: "string list" where
  "ORIGINAL_FILES =
    [''https://huggingface.co/ResembleAI/chatterbox/resolve/main/t3_cfg.safetensors?download=true'',
     ''https://huggingface.co/ResembleAI/chatterbox/resolve/main/s3gen.safetensors?download=true'',
     ''https://huggingface.co/ResembleAI/chatterbox/resolve/main/tokenizer.json?download=true'',
     ''https://huggingface.co/ResembleAI/chatterbox/resolve/main/ve.safetensors?download=true'']"

definition TURBO_FILES :: "string list" where
  "TURBO_FILES =
    [''https://huggingface.co/ResembleAI/chatterbox-turbo/resolve/main/s3gen.safetensors?download=true'',
     ''https://huggingface.co/ResembleAI/chatterbox-turbo/resolve/main/conds.pt?download=true'',
     ''https://huggingface.co/ResembleAI/chatterbox-turbo/resolve/main/added_tokens.json?download=true'',
     ''https://huggingface.co/ResembleAI/chatterbox-turbo/resolve/main/s3gen_meanflow.safetensors?download=true'',
     ''https://huggingface.co/ResembleAI/chatterbox-turbo/resolve/main/special_tokens_map.json?download=true'',
     ''https://huggingface.co/ResembleAI/chatterbox-turbo/resolve/main/t3_turbo_v1.safetensors?download=true'',
     ''https://huggingface.co/ResembleAI/chatterbox-turbo/resolve/main/t3_turbo_v1.yaml?download=true'',
     ''https://huggingface.co/ResembleAI/chatterbox-turbo/resolve/main/tokenizer_config.json?download=true'',
     ''https://huggingface.co/ResembleAI/chatterbox-turbo/resolve/main/ve.safetensors?download=true'',
     ''https://huggingface.co/ResembleAI/chatterbox-turbo/resolve/main/vocab.json?download=true'',
     ''https://huggingface.co/ResembleAI/chatterbox-turbo/resolve/main/merges.txt?download=true'']"

definition ORIGINAL_EXPECTED :: "string list" where
  "ORIGINAL_EXPECTED =
    [''t3_cfg.safetensors'', ''s3gen.safetensors'', ''tokenizer.json'', ''ve.safetensors'']"

definition TURBO_EXPECTED :: "string list" where
  "TURBO_EXPECTED =
    [''added_tokens.json'', ''conds.pt'', ''merges.txt'', ''s3gen.safetensors'',
     ''s3gen_meanflow.safetensors'', ''special_tokens_map.json'', ''t3_turbo_v1.safetensors'',
     ''t3_turbo_v1.yaml'', ''tokenizer_config.json'', ''ve.safetensors'', ''vocab.json'']"


section \<open>Strings\<close>

text \<open>
  \<^verbatim>\<open>s.split(c)\<close> for a separator of one character: the pieces between the occurrences of
  \<^verbatim>\<open>c\<close>, so one piece more than there are occurrences, and never the empty list.
\<close>

fun split_on :: "char \<Rightarrow> string \<Rightarrow> string list" where
  "split_on c [] = [[]]"
| "split_on c (x # xs) =
    (if x = c then [] # split_on c xs
     else (case split_on c xs of
             [] \<Rightarrow> [[x]]
           | y # ys \<Rightarrow> (x # y) # ys))"

text \<open>
  The expression \<^verbatim>\<open>url.split('/')[-1].split('?')[0]\<close> of \<^verbatim>\<open>download_file\<close> (line 101)
  and of the download loop (line 378). Both indexings are in range, because
  \<^const>\<open>split_on\<close> never gives the empty list.
\<close>

definition url_filename :: "string \<Rightarrow> string" where
  "url_filename url = hd (split_on (CHR ''?'') (last (split_on (CHR ''/'') url)))"

text \<open>\<^verbatim>\<open>sep.join(xs)\<close>.\<close>

fun join :: "string \<Rightarrow> string list \<Rightarrow> string" where
  "join sep [] = []"
| "join sep [x] = x"
| "join sep (x # y # ys) = x @ sep @ join sep (y # ys)"

text \<open>
  \<^verbatim>\<open>s.strip()\<close> and \<^verbatim>\<open>s.lower()\<close> on ASCII text. The white space of \<^verbatim>\<open>str.strip\<close> below
  code point 128 is tab, line feed, vertical tab, form feed, carriage return, the four
  separators 28 to 31, and the space.
\<close>

definition is_space :: "char \<Rightarrow> bool" where
  "is_space c = (let n = (of_char c :: nat) in (9 \<le> n \<and> n \<le> 13) \<or> (28 \<le> n \<and> n \<le> 32))"

definition strip :: "string \<Rightarrow> string" where
  "strip s = rev (dropWhile is_space (rev (dropWhile is_space s)))"

definition lower_char :: "char \<Rightarrow> char" where
  "lower_char c = (let n = (of_char c :: nat) in if 65 \<le> n \<and> n \<le> 90 then char_of (n + 32) else c)"

definition upper_char :: "char \<Rightarrow> char" where
  "upper_char c = (let n = (of_char c :: nat) in if 97 \<le> n \<and> n \<le> 122 then char_of (n - 32) else c)"

definition lower :: "string \<Rightarrow> string" where
  "lower s = map lower_char s"

text \<open>\<^verbatim>\<open>s.capitalize()\<close>: the first character in upper case, the others in lower case.\<close>

definition capitalize :: "string \<Rightarrow> string" where
  "capitalize s = (case s of [] \<Rightarrow> [] | c # cs \<Rightarrow> upper_char c # lower cs)"


section \<open>The file system\<close>

text \<open>
  A path is the string the program builds for it, and \<^verbatim>\<open>Path(s)\<close> and \<^verbatim>\<open>str(p)\<close>
  leave that string as it is. \<^verbatim>\<open>p / name\<close> appends a separator and the name. The file
  system maps a path to what is there: a regular file with its content, or a directory.
  Two different strings name two different entries (the model has no links and does not
  normalise a path).
\<close>

type_synonym path = string

datatype node = File string | Dir

type_synonym filesystem = "path \<rightharpoonup> node"

definition joinpath :: "path \<Rightarrow> string \<Rightarrow> path" where
  "joinpath p name = p @ ''/'' @ name"

text \<open>\<^verbatim>\<open>p.exists()\<close> and \<^verbatim>\<open>p.is_dir()\<close>.\<close>

definition exists_path :: "filesystem \<Rightarrow> path \<Rightarrow> bool" where
  "exists_path f p = (f p \<noteq> None)"

definition is_dir :: "filesystem \<Rightarrow> path \<Rightarrow> bool" where
  "is_dir f p = (f p = Some Dir)"


section \<open>Validation of a folder the user supplies\<close>

text \<open>
  \<^verbatim>\<open>validate_user_supplied_files\<close>, lines 130 to 144. The loop of lines 137 to 139
  appends to \<^verbatim>\<open>missing_files\<close>, in the order of \<^verbatim>\<open>expected_files\<close>, every name whose path
  under the folder does not exist: that is the \<^const>\<open>filter\<close> below. The function returns a
  pair of a flag and a message.
\<close>

definition missing_files :: "filesystem \<Rightarrow> path \<Rightarrow> string list \<Rightarrow> string list" where
  "missing_files f folder expected_files =
     filter (\<lambda>file. \<not> exists_path f (joinpath folder file)) expected_files"

definition validate_user_supplied_files ::
  "filesystem \<Rightarrow> string \<Rightarrow> string list \<Rightarrow> bool \<times> string" where
  "validate_user_supplied_files f folder_path expected_files =
     (let folder = folder_path in
      if \<not> exists_path f folder \<or> \<not> is_dir f folder
      then (False, ''Folder does not exist or is not a directory'')
      else if missing_files f folder expected_files \<noteq> []
      then (False, ''Missing files: '' @ join '', '' (missing_files f folder expected_files))
      else (True, ''All files present''))"


section \<open>Reading a number\<close>

text \<open>
  \<^verbatim>\<open>int(s)\<close> on an ASCII string: white space around the number is dropped, a sign may
  come first, then decimal digits, where a single underscore may stand between two digits.
  Anything else is a \<^verbatim>\<open>ValueError\<close>, here \<^const>\<open>None\<close>.
\<close>

definition is_digit :: "char \<Rightarrow> bool" where
  "is_digit c = (let n = (of_char c :: nat) in 48 \<le> n \<and> n \<le> 57)"

definition digit_value :: "char \<Rightarrow> nat" where
  "digit_value c = of_char c - 48"

fun parse_digits :: "nat \<Rightarrow> string \<Rightarrow> nat option" where
  "parse_digits acc [] = Some acc"
| "parse_digits acc [c] = (if is_digit c then Some (acc * 10 + digit_value c) else None)"
| "parse_digits acc (c # d # cs) =
    (if is_digit c then parse_digits (acc * 10 + digit_value c) (d # cs)
     else if c = CHR ''_'' \<and> is_digit d then parse_digits (acc * 10 + digit_value d) cs
     else None)"

definition parse_unsigned :: "string \<Rightarrow> nat option" where
  "parse_unsigned s =
    (case s of
       [] \<Rightarrow> None
     | c # cs \<Rightarrow> if is_digit c then parse_digits (digit_value c) cs else None)"

definition py_int :: "string \<Rightarrow> int option" where
  "py_int s =
    (case strip s of
       [] \<Rightarrow> None
     | c # cs \<Rightarrow>
         if c = CHR ''-'' then map_option (\<lambda>n. - int n) (parse_unsigned cs)
         else if c = CHR ''+'' then map_option int (parse_unsigned cs)
         else map_option int (parse_unsigned (c # cs)))"

text \<open>\<^verbatim>\<open>str(n)\<close> for a natural number, as the f-strings of the program print it.\<close>

fun str_nat :: "nat \<Rightarrow> string" where
  "str_nat n =
    (if n < 10 then [char_of (48 + n)]
     else str_nat (n div 10) @ [char_of (48 + n mod 10)])"

declare str_nat.simps [simp del]

definition str_int :: "int \<Rightarrow> string" where
  "str_int i = (if i < 0 then ''-'' @ str_nat (nat (- i)) else str_nat (nat i))"


section \<open>The world the installer runs in\<close>

text \<open>
  Everything outside the program is a field of one record, which every operation takes and
  returns:
  \<^item> the host: \<^verbatim>\<open>platform.system()\<close>, \<^verbatim>\<open>sys.executable\<close>, \<^verbatim>\<open>__file__\<close>, the two numbers
    of \<^verbatim>\<open>sys.version_info\<close>, and what \<^verbatim>\<open>Path.resolve\<close> gives for each path;
  \<^item> the terminal: what the user will type, one entry for each call of \<^verbatim>\<open>input\<close> (a
    line, or Ctrl-C; after the last entry the input is at its end and \<^verbatim>\<open>input\<close> raises
    \<^verbatim>\<open>EOFError\<close>), and what has been printed;
  \<^item> the file system;
  \<^item> child processes: the commands started so far, in order, and how the \<open>n\<close>-th process
    started by this program ends;
  \<^item> the network: the content behind each URL (\<^const>\<open>None\<close> when the fetch fails) and the
    URLs requested so far;
  \<^item> the pairs of source and destination handed to \<^verbatim>\<open>shutil.copy2\<close> so far.
\<close>

datatype input = Line string | Interrupt

datatype msg =
    Plain string
  | Header string
  | Warning string
  | Success string
  | Error string
  | Prompt string
  | ClearScreen
  | Traceback

datatype proc_result = Returncode int | SpawnFailure

record world =
  platform_system :: string
  sys_executable :: string
  script_file :: string
  version_info :: "nat \<times> nat"
  resolve :: "path \<Rightarrow> path"
  stdin :: "input list"
  console :: "msg list"
  fs :: filesystem
  proc :: "nat \<Rightarrow> proc_result"
  commands :: "string list list"
  remote :: "string \<rightharpoonup> string"
  fetched :: "string list"
  copied :: "(path \<times> path) list"

text \<open>
  How a call ends: it returns a value, raises an exception of class \<^verbatim>\<open>Exception\<close>,
  raises \<^verbatim>\<open>SystemExit\<close> (\<^verbatim>\<open>sys.exit\<close>) or \<^verbatim>\<open>KeyboardInterrupt\<close>, which
  \<^verbatim>\<open>except Exception\<close> does not catch, or hands the process to \<^verbatim>\<open>os.execv\<close>.
\<close>

datatype exn =
    CalledProcessError "string list" int
  | OSError
  | EOFError
  | URLError string
  | IndexError
  | TypeError
  | FileExistsError path
  | FileNotFoundError path
  | IsADirectoryError path
  | SameFileError path

datatype 'a res =
    Return 'a
  | Raise exn
  | SysExit int
  | KeyboardInterrupt
  | Execv path "string list"

text \<open>Sequencing: the rest of the body runs only when the call before it has returned.\<close>

definition seq :: "'a res \<times> world \<Rightarrow> ('a \<Rightarrow> world \<Rightarrow> 'b res \<times> world) \<Rightarrow> 'b res \<times> world" where
  "seq m k =
    (case m of
       (Return x, w) \<Rightarrow> k x w
     | (Raise e, w) \<Rightarrow> (Raise e, w)
     | (SysExit n, w) \<Rightarrow> (SysExit n, w)
     | (KeyboardInterrupt, w) \<Rightarrow> (KeyboardInterrupt, w)
     | (Execv p a, w) \<Rightarrow> (Execv p a, w))"

text \<open>\<^verbatim>\<open>try: ... except Exception as e: ...\<close>\<close>

definition try_except ::
  "'a res \<times> world \<Rightarrow> (exn \<Rightarrow> world \<Rightarrow> 'a res \<times> world) \<Rightarrow> 'a res \<times> world" where
  "try_except m handler =
    (case m of
       (Raise e, w) \<Rightarrow> handler e w
     | (r, w) \<Rightarrow> (r, w))"

text \<open>
  The text of an exception in a message, \<^verbatim>\<open>f"{e}"\<close>. The model keeps the class and the
  argument, not the wording of the Python library.
\<close>

fun str_exn :: "exn \<Rightarrow> string" where
  "str_exn (CalledProcessError cmd c) =
     ''Command '' @ join '' '' cmd @ '' returned non-zero exit status '' @ str_int c"
| "str_exn OSError = ''OSError''"
| "str_exn EOFError = ''EOF when reading a line''"
| "str_exn (URLError url) = ''URLError '' @ url"
| "str_exn IndexError = ''list index out of range''"
| "str_exn TypeError = ''TypeError''"
| "str_exn (FileExistsError p) = ''File exists: '' @ p"
| "str_exn (FileNotFoundError p) = ''No such file or directory: '' @ p"
| "str_exn (IsADirectoryError p) = ''Is a directory: '' @ p"
| "str_exn (SameFileError p) = ''Same file: '' @ p"


section \<open>Utility functions\<close>

text \<open>
  Lines 54 to 74. One call of \<^verbatim>\<open>print\<close> is one entry of the console; the marks of
  \<^verbatim>\<open>print_warning\<close>, \<^verbatim>\<open>print_success\<close> and \<^verbatim>\<open>print_error\<close>, which are not ASCII, are the
  constructors of \<^typ>\<open>msg\<close>, and the three lines of \<^verbatim>\<open>print_header\<close> are one entry.
\<close>

definition emit :: "msg \<Rightarrow> world \<Rightarrow> world" where
  "emit m w = w\<lparr>console := console w @ [m]\<rparr>"

definition print :: "string \<Rightarrow> world \<Rightarrow> world" where
  "print text = emit (Plain text)"

definition clear_screen :: "world \<Rightarrow> world" where
  "clear_screen = emit ClearScreen"

definition print_header :: "string \<Rightarrow> world \<Rightarrow> world" where
  "print_header text = emit (Header text)"

definition print_warning :: "string \<Rightarrow> world \<Rightarrow> world" where
  "print_warning text = emit (Warning text)"

definition print_success :: "string \<Rightarrow> world \<Rightarrow> world" where
  "print_success text = emit (Success text)"

definition print_error :: "string \<Rightarrow> world \<Rightarrow> world" where
  "print_error text = emit (Error text)"

definition nl :: string where
  "nl = [CHR 0x0A]"

text \<open>\<^verbatim>\<open>input(prompt)\<close>: the prompt is printed, then the next entry of the input is read.\<close>

definition input :: "string \<Rightarrow> world \<Rightarrow> string res \<times> world" where
  "input prompt w =
    (let w1 = emit (Prompt prompt) w in
     case stdin w of
       [] \<Rightarrow> (Raise EOFError, w1)
     | Interrupt # rest \<Rightarrow> (KeyboardInterrupt, w1\<lparr>stdin := rest\<rparr>)
     | Line s # rest \<Rightarrow> (Return s, w1\<lparr>stdin := rest\<rparr>))"

text \<open>
  \<^verbatim>\<open>subprocess.run(cmd)\<close>: the command is started and its return code comes back, unless
  the process cannot be started. \<^verbatim>\<open>run(cmd)\<close> of lines 76 to 81 is called with
  \<^verbatim>\<open>check=True\<close> and without capture everywhere in the program: a return code other than 0
  raises \<^verbatim>\<open>CalledProcessError\<close>.
\<close>

definition subprocess_run :: "string list \<Rightarrow> world \<Rightarrow> int res \<times> world" where
  "subprocess_run cmd w =
    (let w1 = w\<lparr>commands := commands w @ [cmd]\<rparr> in
     case proc w (length (commands w)) of
       Returncode c \<Rightarrow> (Return c, w1)
     | SpawnFailure \<Rightarrow> (Raise OSError, w1))"

definition run :: "string list \<Rightarrow> world \<Rightarrow> unit res \<times> world" where
  "run cmd w =
    seq (subprocess_run cmd w)
      (\<lambda>c w1. if c \<noteq> 0 then (Raise (CalledProcessError cmd c), w1) else (Return (), w1))"

text \<open>
  The four globals that \<^verbatim>\<open>main\<close> sets in lines 251 to 259 and \<^verbatim>\<open>pip_install\<close> reads.
\<close>

record env =
  VENV_DIR :: path
  PYTHON_EXE :: path
  PIP_EXE :: path
  ACTIVATE :: path

text \<open>
  \<^verbatim>\<open>pip_install\<close>, lines 83 to 97. The handler catches \<^verbatim>\<open>CalledProcessError\<close> only, and
  the second \<^verbatim>\<open>run(cmd)\<close> stands outside every \<^verbatim>\<open>try\<close>.
\<close>

definition pip_command :: "env \<Rightarrow> world \<Rightarrow> string list \<Rightarrow> string list" where
  "pip_command e w args =
    (if exists_path (fs w) (PIP_EXE e)
     then [PIP_EXE e, ''install'', ''--upgrade'']
     else [PYTHON_EXE e, ''-m'', ''pip'', ''install'', ''--upgrade'']) @ args"

definition pip_install :: "env \<Rightarrow> string list \<Rightarrow> world \<Rightarrow> unit res \<times> world" where
  "pip_install e args w =
    (let cmd = pip_command e w args in
     case run cmd w of
       (Raise (CalledProcessError c n), w1) \<Rightarrow>
         run cmd
           (print_warning ''Retrying once...''
             (print_warning (''Install failed: '' @ str_exn (CalledProcessError c n)) w1))
     | (r, w1) \<Rightarrow> (r, w1))"

text \<open>
  \<^verbatim>\<open>download_file\<close>, lines 99 to 108. \<^verbatim>\<open>urlretrieve\<close> writes what is behind the URL to the
  destination, or raises; the handler prints and raises again.
\<close>

definition urlretrieve :: "string \<Rightarrow> path \<Rightarrow> world \<Rightarrow> unit res \<times> world" where
  "urlretrieve url dest w =
    (let w1 = w\<lparr>fetched := fetched w @ [url]\<rparr> in
     case remote w url of
       None \<Rightarrow> (Raise (URLError url), w1)
     | Some content \<Rightarrow>
         if fs w dest = Some Dir then (Raise (IsADirectoryError dest), w1)
         else (Return (), w1\<lparr>fs := (fs w)(dest \<mapsto> File content)\<rparr>))"

definition download_file :: "string \<Rightarrow> path \<Rightarrow> world \<Rightarrow> unit res \<times> world" where
  "download_file url dest w =
    (let filename = url_filename url;
         w1 = print (''Downloading '' @ filename @ ''...'') w in
     try_except
       (seq (urlretrieve url dest w1)
          (\<lambda>_ w2. (Return (), print_success (''Downloaded '' @ filename) w2)))
       (\<lambda>e w2. (Raise e,
                 print_error (''Failed to download '' @ filename @ '': '' @ str_exn e) w2)))"

text \<open>
  \<^verbatim>\<open>get_user_choice\<close>, lines 110 to 128. Each round of the \<^verbatim>\<open>while True\<close> prints the
  prompt and the numbered options and reads one entry of the input, so the loop is a
  recursion on the input that is left.
\<close>

fun print_numbered :: "nat \<Rightarrow> string list \<Rightarrow> world \<Rightarrow> world" where
  "print_numbered i [] w = w"
| "print_numbered i (option # options) w =
     print_numbered (Suc i) options (print (str_nat i @ ''. '' @ option) w)"

definition show_menu :: "string \<Rightarrow> string list \<Rightarrow> world \<Rightarrow> world" where
  "show_menu prompt options w =
     emit (Prompt (nl @ ''Enter your choice (number): ''))
       (print_numbered 1 options (print prompt w))"

fun choice_loop :: "string \<Rightarrow> string list \<Rightarrow> input list \<Rightarrow> world \<Rightarrow> int res \<times> world" where
  "choice_loop prompt options [] w = (Raise EOFError, show_menu prompt options w)"
| "choice_loop prompt options (Interrupt # rest) w =
     (SysExit 0,
      print (nl @ nl @ ''Installation cancelled.'') ((show_menu prompt options w)\<lparr>stdin := rest\<rparr>))"
| "choice_loop prompt options (Line s # rest) w =
     (let w1 = (show_menu prompt options w)\<lparr>stdin := rest\<rparr>;
          choice = strip s
      in case py_int choice of
           None \<Rightarrow>
             choice_loop prompt options rest (print_error ''Please enter a valid number'' w1)
         | Some choice_num \<Rightarrow>
             if 1 \<le> choice_num \<and> choice_num \<le> int (length options)
             then (Return choice_num, w1)
             else choice_loop prompt options rest
                    (print_error
                       (''Please enter a number between 1 and '' @ str_nat (length options)) w1))"

definition get_user_choice :: "string \<Rightarrow> string list \<Rightarrow> world \<Rightarrow> int res \<times> world" where
  "get_user_choice prompt options w = choice_loop prompt options (stdin w) w"

text \<open>\<^verbatim>\<open>python_tag\<close>, lines 146 to 149.\<close>

definition python_tag :: "world \<Rightarrow> string" where
  "python_tag w = (case version_info w of (major, minor) \<Rightarrow> ''cp'' @ str_nat major @ str_nat minor)"


section \<open>The installation flow\<close>

subsection \<open>Step 1: model selection\<close>

text \<open>
  Lines 172 to 221. For a model the user supplies, the loop of lines 199 to 214 reads a
  folder, strips a pair of double quotes around it and validates it; after a refusal it
  reads the answer to "Try again?", and any answer but \<^verbatim>\<open>y\<close> ends the program with status
  0. A round reads one or two entries of the input.
\<close>

definition model_options :: "string list" where
  "model_options =
    [''Chatterbox (Original): Zero-shot cloning, Multiple Languages, Slower'',
     ''Chatterbox (Turbo): Paralinguistic Tags ([laugh]), Lower Compute and VRAM, Faster, May reduce quality'',
     ''Chatterbox (Original, User Supplied): Same as Option 1, but you will supply the model files'',
     ''Chatterbox (Turbo, User Supplied): Same as Option 2, but you will supply files'']"

definition unquote :: "string \<Rightarrow> string" where
  "unquote s =
    (if s \<noteq> [] \<and> hd s = CHR 0x22 \<and> last s = CHR 0x22 then butlast (tl s) else s)"

fun print_required :: "string list \<Rightarrow> world \<Rightarrow> world" where
  "print_required [] w = w"
| "print_required (f # rest) w = print_required rest (print (''  - '' @ f) w)"

fun folder_loop :: "string list \<Rightarrow> input list \<Rightarrow> world \<Rightarrow> path res \<times> world" where
  "folder_loop expected_files [] w =
     (Raise EOFError, emit (Prompt (nl @ ''Enter the full path to your model folder: '')) w)"
| "folder_loop expected_files (Interrupt # rest) w =
     (KeyboardInterrupt,
      (emit (Prompt (nl @ ''Enter the full path to your model folder: '')) w)\<lparr>stdin := rest\<rparr>)"
| "folder_loop expected_files (Line s # rest) w =
     (let w1 = (emit (Prompt (nl @ ''Enter the full path to your model folder: '')) w)
                 \<lparr>stdin := rest\<rparr>;
          folder_path = unquote (strip s);
          result = validate_user_supplied_files (fs w1) folder_path expected_files
      in if fst result then (Return folder_path, print_success (snd result) w1)
         else
           (let w2 = emit (Prompt ''Try again? (y/n): '') (print_error (snd result) w1)
            in case rest of
                 [] \<Rightarrow> (Raise EOFError, w2)
               | Interrupt # rest' \<Rightarrow> (KeyboardInterrupt, w2\<lparr>stdin := rest'\<rparr>)
               | Line r # rest' \<Rightarrow>
                   if lower (strip r) \<noteq> ''y''
                   then (SysExit 0, print ''Installation cancelled.'' (w2\<lparr>stdin := rest'\<rparr>))
                   else folder_loop expected_files rest' (w2\<lparr>stdin := rest'\<rparr>)))"

definition step1_model_selection ::
  "world \<Rightarrow> (bool \<times> bool \<times> string \<times> path option) res \<times> world" where
  "step1_model_selection w =
    seq (get_user_choice [] model_options
           (print (''Available Models:'' @ nl)
             (print (''Welcome! Ready to Install Chatterbox? Start by entering an option below:'' @ nl)
               (print_header ''Step 1: Model Selection'' w))))
      (\<lambda>model_choice w1.
         let is_turbo = (model_choice \<in> set [2, 4]);
             is_user_supplied = (model_choice \<in> set [3, 4]);
             model_type = (if is_turbo then ''Turbo'' else ''Original'')
         in if is_user_supplied
            then
              (let expected_files = (if is_turbo then TURBO_EXPECTED else ORIGINAL_EXPECTED);
                   w2 = print_required expected_files
                          (print (nl @ ''Required files:'')
                            (print (nl @ ''You selected User Supplied '' @ model_type @ '' model.'') w1))
               in seq (folder_loop expected_files (stdin w2) w2)
                    (\<lambda>user_model_path w3.
                       (Return (is_turbo, is_user_supplied, model_type, Some user_model_path), w3)))
            else
              seq (input ''Continue? (y/n): ''
                     (print_warning
                        (''These files are large and may incur data charges if you don'' @ [CHR 0x27]
                           @ ''t have an unlimited plan.'')
                        (print (nl @ ''You selected '' @ model_type @ '' model (download from repository).'') w1)))
                (\<lambda>answer w2.
                   if lower (strip answer) \<noteq> ''y''
                   then (SysExit 0, print ''Installation cancelled.'' w2)
                   else (Return (is_turbo, is_user_supplied, model_type, None), w2)))"


subsection \<open>Step 2: backend selection\<close>

text \<open>
  Lines 226 to 244. \<^verbatim>\<open>xs[i]\<close> of a Python list counts a negative index from the end and
  raises \<^verbatim>\<open>IndexError\<close> out of range.
\<close>

definition backend_options :: "string list" where
  "backend_options =
    [''CPU: Choose this if you do not have a GPU or want to only use your CPU, CPU generation may be very slow on older/low power CPUs'',
     ''AMD (ROCm): Linux Only, AMD RX 6000 Series and newer'',
     ''Nvidia (CUDA): RTX 30 and newer only'']"

definition py_index :: "'a list \<Rightarrow> int \<Rightarrow> 'a option" where
  "py_index xs i =
    (if 0 \<le> i \<and> i < int (length xs) then Some (xs ! nat i)
     else if - int (length xs) \<le> i \<and> i < 0 then Some (xs ! nat (int (length xs) + i))
     else None)"

definition validate_backend :: "string \<Rightarrow> int \<Rightarrow> world \<Rightarrow> (int \<times> string) res \<times> world" where
  "validate_backend OS backend_choice w =
    (if backend_choice = 2 \<and> OS \<noteq> ''linux''
     then (SysExit 1,
           print ''Please restart and choose a different backend.''
             (print_error ''AMD ROCm is only supported on Linux!'' w))
     else (case py_index [''CPU'', ''AMD (ROCm)'', ''Nvidia (CUDA)''] (backend_choice - 1) of
             None \<Rightarrow> (Raise IndexError, w)
           | Some backend_name \<Rightarrow>
               (Return (backend_choice, backend_name),
                print (nl @ ''You selected: '' @ backend_name) w)))"

definition choose_backend :: "world \<Rightarrow> int res \<times> world" where
  "choose_backend w =
    get_user_choice [] backend_options
      (print (''Great! Now, you'' @ [CHR 0x27] @ ''ll need to choose your backend:'' @ nl)
        (print_header ''Step 2: Backend Selection'' w))"

definition step2_backend_selection :: "string \<Rightarrow> world \<Rightarrow> (int \<times> string) res \<times> world" where
  "step2_backend_selection OS w =
    seq (choose_backend w) (\<lambda>backend_choice w1. validate_backend OS backend_choice w1)"


subsection \<open>Step 3: the virtual environment\<close>

text \<open>
  Lines 251 to 259: the paths of the environment, from the host's family.
\<close>

definition venv_paths :: "string \<Rightarrow> world \<Rightarrow> env" where
  "venv_paths OS w =
    (let venv_dir = resolve w VENV_NAME in
     if OS = ''windows''
     then \<lparr>VENV_DIR = venv_dir,
           PYTHON_EXE = joinpath (joinpath venv_dir ''Scripts'') ''python.exe'',
           PIP_EXE = joinpath (joinpath venv_dir ''Scripts'') ''pip.exe'',
           ACTIVATE = joinpath (joinpath venv_dir ''Scripts'') ''activate.ps1''\<rparr>
     else \<lparr>VENV_DIR = venv_dir,
           PYTHON_EXE = joinpath (joinpath venv_dir ''bin'') ''python'',
           PIP_EXE = joinpath (joinpath venv_dir ''bin'') ''pip'',
           ACTIVATE = joinpath (joinpath venv_dir ''bin'') ''activate''\<rparr>)"

text \<open>
  What the child processes of this step leave on disk when they end with return code 0:
  \<^verbatim>\<open>python -m venv DIR\<close> makes the directory with its interpreter and its pip, and
  \<^verbatim>\<open>python -m ensurepip\<close> makes pip. The other child processes (pip, the import probes)
  touch nothing that the program looks at.
\<close>

definition venv_created :: "env \<Rightarrow> world \<Rightarrow> world" where
  "venv_created e w =
     w\<lparr>fs := (fs w)(VENV_DIR e \<mapsto> Dir, PYTHON_EXE e \<mapsto> File [], PIP_EXE e \<mapsto> File [])\<rparr>"

definition pip_created :: "env \<Rightarrow> world \<Rightarrow> world" where
  "pip_created e w = w\<lparr>fs := (fs w)(PIP_EXE e \<mapsto> File [])\<rparr>"

text \<open>
  Lines 261 to 272: the environment is created when its directory is missing; then, when
  the running interpreter does not resolve to the interpreter of the environment, the
  process hands itself to \<^verbatim>\<open>os.execv\<close>, which runs the script from its first line with the
  interpreter of the environment.
\<close>

definition ensure_environment :: "string \<Rightarrow> world \<Rightarrow> env res \<times> world" where
  "ensure_environment OS w =
    (let e = venv_paths OS w in
     seq (if \<not> exists_path (fs w) (VENV_DIR e)
          then seq (run [sys_executable w, ''-m'', ''venv'', VENV_DIR e]
                      (print ''Creating virtual environment...'' w))
                 (\<lambda>_ w1. (Return (), print_success ''Virtual environment created'' (venv_created e w1)))
          else (Return (), print_success ''Virtual environment already exists'' w))
       (\<lambda>_ w1.
          if resolve w1 (sys_executable w1) \<noteq> resolve w1 (PYTHON_EXE e)
          then (Execv (PYTHON_EXE e) [PYTHON_EXE e, script_file w1],
                print ''Activating virtual environment...'' w1)
          else (Return e, w1)))"


text \<open>Lines 274 to 277.\<close>

definition ensure_pip :: "env \<Rightarrow> world \<Rightarrow> unit res \<times> world" where
  "ensure_pip e w =
    (if \<not> exists_path (fs w) (PIP_EXE e)
     then seq (run [PYTHON_EXE e, ''-m'', ''ensurepip'', ''--upgrade'']
                 (print ''Ensuring pip is available...'' w))
            (\<lambda>_ w1. (Return (), pip_created e w1))
     else (Return (), w))"

definition step3_environment_setup :: "string \<Rightarrow> world \<Rightarrow> env res \<times> world" where
  "step3_environment_setup OS w =
    seq (ensure_environment OS (print_header ''Step 3: Environment Setup'' w))
      (\<lambda>e w1. seq (ensure_pip e w1) (\<lambda>_ w2. (Return e, w2)))"


subsection \<open>Step 4: PyTorch\<close>

text \<open>
  Lines 282 to 317. The three installs of the PyTorch stack stand outside every \<^verbatim>\<open>try\<close>;
  the install of flash-attention, for CUDA only, stands inside one.
\<close>

definition torch_packages :: "string list" where
  "torch_packages = [''torch==2.6.0'', ''torchvision==0.21.0'', ''torchaudio==2.6.0'']"

definition flash_url :: "string \<Rightarrow> string \<Rightarrow> string" where
  "flash_url OS tag =
    (if OS = ''linux''
     then ''https://github.com/mjun0812/flash-attention-prebuild-wheels/''
          @ ''releases/download/v0.3.18/flash_attn-2.7.4+cu124torch2.6-''
          @ tag @ ''-'' @ tag @ ''-linux_x86_64.whl''
     else ''https://github.com/mjun0812/flash-attention-prebuild-wheels/''
          @ ''releases/download/v0.3.9/flash_attn-2.7.4+cu124torch2.6-''
          @ tag @ ''-'' @ tag @ ''-win_amd64.whl'')"

definition step4_pytorch :: "string \<Rightarrow> env \<Rightarrow> int \<Rightarrow> world \<Rightarrow> unit res \<times> world" where
  "step4_pytorch OS e backend_choice w =
    (let w0 = print_header ''Step 4: Installing PyTorch'' w;
         tag = python_tag w0
     in if backend_choice = 1
        then pip_install e
               (torch_packages @ [''--index-url'', ''https://download.pytorch.org/whl/cpu''])
               (print ''Installing CPU-only PyTorch...'' w0)
        else if backend_choice = 2
        then pip_install e
               (torch_packages @ [''--index-url'', ''https://download.pytorch.org/whl/rocm6.2.4''])
               (print ''Installing ROCm PyTorch...'' w0)
        else if backend_choice = 3
        then seq (pip_install e
                    (torch_packages @ [''--index-url'', ''https://download.pytorch.org/whl/cu124''])
                    (print ''Installing CUDA PyTorch...'' w0))
               (\<lambda>_ w1.
                  try_except
                    (seq (pip_install e [flash_url OS tag]
                            (print (nl @ ''Installing flash-attention for RTX 30+ series...'') w1))
                       (\<lambda>_ w2. (Return (), print_success ''flash-attention installed'' w2)))
                    (\<lambda>ex w2.
                       (Return (),
                        print_warning ''Continuing without flash-attention (may affect performance)''
                          (print_warning (''flash-attention installation failed: '' @ str_exn ex) w2))))
        else (Return (), w0))"


subsection \<open>Step 5: the dependencies of chatterbox-tts\<close>

text \<open>
  Lines 322 to 354. The install of chatterbox-tts itself stands outside every \<^verbatim>\<open>try\<close>;
  each round of the loop over the dependencies is a \<^verbatim>\<open>try\<close> whose handler prints two
  warnings and goes on.
\<close>

definition dependencies :: "string list" where
  "dependencies =
    [''numpy>=1.24.0,<1.26.0'',
     ''librosa==0.11.0'',
     ''safetensors==0.5.3'',
     ''huggingface_hub>=0.23.2,<1.0'',
     ''transformers==4.46.3'',
     ''diffusers==0.29.0'',
     ''einops'',
     ''s3tokenizer'',
     ''conformer==0.3.2'',
     ''resemble-perth==1.0.1'',
     ''pykakasi==2.3.0'',
     ''gradio==5.44.1'',
     ''soundfile>=0.12.1'',
     ''audioread>=2.1.9'',
     ''omegaconf>=2.3.0'',
     ''pyloudnorm'',
     ''spacy-pkuseg'']"

definition install_dependency :: "env \<Rightarrow> string \<Rightarrow> world \<Rightarrow> unit res \<times> world" where
  "install_dependency e dep w =
    try_except
      (pip_install e [dep] (print (''Installing '' @ dep @ ''...'') w))
      (\<lambda>ex w1.
         (Return (),
          print_warning ''Continuing with remaining dependencies...''
            (print_warning (''Failed to install '' @ dep @ '': '' @ str_exn ex) w1)))"

fun install_dependencies :: "env \<Rightarrow> string list \<Rightarrow> world \<Rightarrow> unit res \<times> world" where
  "install_dependencies e [] w = (Return (), w)"
| "install_dependencies e (dep # deps) w =
     seq (install_dependency e dep w) (\<lambda>_ w1. install_dependencies e deps w1)"

definition step5_dependencies :: "env \<Rightarrow> world \<Rightarrow> unit res \<times> world" where
  "step5_dependencies e w =
    seq (pip_install e [''--no-deps'', ''chatterbox-tts'']
           (print ''Installing chatterbox-tts (without dependencies)...''
             (print_header ''Step 5: Installing Chatterbox-TTS Dependencies'' w)))
      (\<lambda>_ w1. install_dependencies e dependencies
                 (print (nl @ ''Installing core dependencies...'') w1))"


subsection \<open>Step 6: the model files\<close>

text \<open>
  \<^verbatim>\<open>Path.mkdir(exist_ok=True)\<close> and \<^verbatim>\<open>shutil.copy2(src, dst)\<close>. A copy reads a regular
  file; a destination that is a directory receives the file under its own name; a file is
  not copied onto itself; the content of the source replaces what the destination held.
\<close>

definition mkdir_exist_ok :: "path \<Rightarrow> world \<Rightarrow> unit res \<times> world" where
  "mkdir_exist_ok p w =
    (case fs w p of
       None \<Rightarrow> (Return (), w\<lparr>fs := (fs w)(p \<mapsto> Dir)\<rparr>)
     | Some Dir \<Rightarrow> (Return (), w)
     | Some (File content) \<Rightarrow> (Raise (FileExistsError p), w))"

definition basename :: "path \<Rightarrow> string" where
  "basename p = last (split_on (CHR ''/'') p)"

definition copy2 :: "path \<Rightarrow> path \<Rightarrow> world \<Rightarrow> unit res \<times> world" where
  "copy2 src dst w =
    (let w1 = w\<lparr>copied := copied w @ [(src, dst)]\<rparr> in
     case fs w src of
       None \<Rightarrow> (Raise (FileNotFoundError src), w1)
     | Some Dir \<Rightarrow> (Raise (IsADirectoryError src), w1)
     | Some (File content) \<Rightarrow>
         (let target = (if fs w dst = Some Dir then joinpath dst (basename src) else dst) in
          if target = src then (Raise (SameFileError src), w1)
          else if fs w target = Some Dir then (Raise (IsADirectoryError target), w1)
          else (Return (), w1\<lparr>fs := (fs w)(target \<mapsto> File content)\<rparr>)))"

text \<open>Lines 367 to 372: the copy loop of the mode in which the user supplies the files.\<close>

fun copy_files :: "path \<Rightarrow> path \<Rightarrow> string list \<Rightarrow> world \<Rightarrow> unit res \<times> world" where
  "copy_files user_model_path model_path [] w = (Return (), w)"
| "copy_files user_model_path model_path (file # files) w =
     (let src = joinpath user_model_path file;
          dst = joinpath model_path file
      in seq (if exists_path (fs w) src
              then seq (copy2 src dst w)
                     (\<lambda>_ w1. (Return (), print_success (''Copied '' @ file) w1))
              else (Return (), w))
           (\<lambda>_ w1. copy_files user_model_path model_path files w1))"

text \<open>Lines 377 to 383: the download loop.\<close>

fun download_files :: "path \<Rightarrow> string list \<Rightarrow> world \<Rightarrow> unit res \<times> world" where
  "download_files model_path [] w = (Return (), w)"
| "download_files model_path (url # urls) w =
     (let filename = url_filename url;
          dest = joinpath model_path filename
      in seq (if \<not> exists_path (fs w) dest
              then download_file url dest w
              else (Return (), print_success (filename @ '' already exists, skipping'') w))
           (\<lambda>_ w1. download_files model_path urls w1))"

definition step6_model_files ::
  "bool \<Rightarrow> bool \<Rightarrow> path option \<Rightarrow> world \<Rightarrow> path res \<times> world" where
  "step6_model_files is_turbo is_user_supplied user_model_path w =
    (let model_path = MODEL_DIR in
     seq (mkdir_exist_ok model_path (print_header ''Step 6: Setting Up Model Files'' w))
       (\<lambda>_ w1.
          if is_user_supplied
          then (case user_model_path of
                  None \<Rightarrow> (Raise TypeError, print ''Copying model files from None...'' w1)
                | Some folder \<Rightarrow>
                    seq (copy_files folder model_path
                           (if is_turbo then TURBO_EXPECTED else ORIGINAL_EXPECTED)
                           (print (''Copying model files from '' @ folder @ ''...'') w1))
                      (\<lambda>_ w2. (Return model_path, print_success ''All model files copied'' w2)))
          else seq (download_files model_path
                      (if is_turbo then TURBO_FILES else ORIGINAL_FILES)
                      (print ''Downloading model files...'' w1))
                 (\<lambda>_ w2. (Return model_path, w2))))"


subsection \<open>Step 7: verification, and the summary\<close>

text \<open>
  Lines 388 to 417. The probe is \<^verbatim>\<open>subprocess.run\<close> without \<^verbatim>\<open>check\<close>: a return code
  other than 0, or a process that cannot be started, puts the package on the list.
\<close>

definition critical_packages :: "string list" where
  "critical_packages =
    [''torch'', ''torchaudio'', ''librosa'', ''safetensors'', ''transformers'',
     ''diffusers'', ''conformer'', ''s3tokenizer'', ''resemble_perth'', ''einops'',
     ''huggingface_hub'', ''soundfile'', ''audioread'']"

fun verify_packages ::
  "env \<Rightarrow> string list \<Rightarrow> string list \<Rightarrow> world \<Rightarrow> string list res \<times> world" where
  "verify_packages e [] failed_packages w = (Return failed_packages, w)"
| "verify_packages e (pkg # pkgs) failed_packages w =
     seq (try_except
            (seq (subprocess_run [PYTHON_EXE e, ''-c'', ''import '' @ pkg] w)
               (\<lambda>returncode w1.
                  if returncode = 0 then (Return failed_packages, print_success pkg w1)
                  else (Return (failed_packages @ [pkg]), print_error pkg w1)))
            (\<lambda>ex w1.
               (Return (failed_packages @ [pkg]),
                print_error (pkg @ '' (check failed: '' @ str_exn ex @ '')'') w1)))
       (\<lambda>failed w1. verify_packages e pkgs failed w1)"

definition step7_verification :: "env \<Rightarrow> world \<Rightarrow> string list res \<times> world" where
  "step7_verification e w =
    seq (verify_packages e critical_packages []
           (print ''Verifying Python packages...''
             (print_header ''Step 7: Installation Verification'' w)))
      (\<lambda>failed_packages w1.
         (Return failed_packages,
          if failed_packages \<noteq> []
          then print_warning ''You may need to install these manually later.''
                 (print_warning
                    (nl @ ''Some packages failed to install: '' @ join '', '' failed_packages) w1)
          else w1))"

text \<open>Lines 422 to 453. The bullet of the three configuration lines is not ASCII and is left out.\<close>

definition final_summary ::
  "string \<Rightarrow> env \<Rightarrow> string \<Rightarrow> string \<Rightarrow> int \<Rightarrow> path \<Rightarrow> string list \<Rightarrow> world \<Rightarrow> world" where
  "final_summary OS e model_type backend_name backend_choice model_path failed_packages w =
    (let w1 = print_header ''Installation Complete!'' w;
         w2 = (if failed_packages \<noteq> []
               then print (''Failed packages: '' @ join '', '' failed_packages @ nl)
                      (emit (Warning ''Installation completed with warnings'') w1)
               else print_success (''All components installed successfully!'' @ nl) w1);
         w3 = print (''  Model files: '' @ resolve w2 model_path @ nl)
                (print (''  Backend: '' @ backend_name)
                  (print (''  Model: Chatterbox '' @ model_type)
                    (print ''Configuration:'' w2)));
         w4 = print (''  python your_script.py'' @ nl)
                ((if OS = ''linux'' then print (''  source '' @ ACTIVATE e)
                  else print (''  '' @ ACTIVATE e))
                   (print ''To use Chatterbox-TTS:'' w3));
         w5 = (if backend_choice = 1
               then print (''Note: Using CPU backend. Use device='' @ [CHR 0x27] @ ''cpu''
                             @ [CHR 0x27] @ '' in your scripts.'' @ nl) w4
               else w4);
         w6 = (if OS = ''linux'' then print ''  sudo apt-get install ffmpeg''
               else print ''  Download from: https://ffmpeg.org/download.html'')
                (print ''For audio issues, install ffmpeg:'' w5)
     in emit (Header ''Thank you for installing Chatterbox-TTS!'') w6)"


subsection \<open>The whole run\<close>

text \<open>\<^verbatim>\<open>main\<close>, lines 155 to 453; lines 165 to 167 open the run.\<close>

definition announce :: "string \<Rightarrow> world \<Rightarrow> world" where
  "announce OS w =
     print (''Detected OS: '' @ capitalize OS @ nl)
       (print_header ''Chatterbox-TTS Installer'' (clear_screen w))"

definition main :: "world \<Rightarrow> unit res \<times> world" where
  "main w =
    (let OS = lower (platform_system w) in
     if OS \<notin> set [''windows'', ''linux'']
     then (SysExit 1,
           print ''This installer only supports Windows and Linux''
             (print_error (''Unsupported operating system: '' @ OS) w))
     else
       seq (step1_model_selection (announce OS w))
         (\<lambda>(is_turbo, is_user_supplied, model_type, user_model_path) w1.
       seq (step2_backend_selection OS w1)
         (\<lambda>(backend_choice, backend_name) w2.
       seq (step3_environment_setup OS w2)
         (\<lambda>e w3.
       seq (step4_pytorch OS e backend_choice w3)
         (\<lambda>_ w4.
       seq (step5_dependencies e w4)
         (\<lambda>_ w5.
       seq (step6_model_files is_turbo is_user_supplied user_model_path w5)
         (\<lambda>model_path w6.
       seq (step7_verification e w6)
         (\<lambda>failed_packages w7.
            (Return (),
             final_summary OS e model_type backend_name backend_choice model_path
               failed_packages w7)))))))))"

text \<open>
  The entry point, lines 459 to 469: how the process ends. A run that comes to the end of
  \<^verbatim>\<open>main\<close> ends with status 0, a \<^verbatim>\<open>KeyboardInterrupt\<close> with status 0, \<^verbatim>\<open>sys.exit(n)\<close>
  with status \<open>n\<close>, any other exception with status 1.
\<close>

datatype ending = Exited int | Replaced path "string list"

definition entry_point :: "world \<Rightarrow> ending \<times> world" where
  "entry_point w =
    (case main w of
       (Return _, w1) \<Rightarrow> (Exited 0, w1)
     | (KeyboardInterrupt, w1) \<Rightarrow>
         (Exited 0, print (nl @ nl @ ''Installation cancelled by user.'') w1)
     | (Raise e, w1) \<Rightarrow>
         (Exited 1, emit Traceback (print_error (''Installation failed: '' @ str_exn e) w1))
     | (SysExit n, w1) \<Rightarrow> (Exited n, w1)
     | (Execv exe argv, w1) \<Rightarrow> (Replaced exe argv, w1))"


section \<open>Example inputs\<close>

text \<open>
  A folder \<^verbatim>\<open>/models\<close> that holds every file of the Turbo model but the last of the list,
  \<^verbatim>\<open>vocab.json\<close>.
\<close>

definition turbo_folder_without_vocab :: filesystem where
  "turbo_folder_without_vocab =
     (map_of (map (\<lambda>name. (joinpath ''/models'' name, File [])) (butlast TURBO_EXPECTED)))
       (''/models'' \<mapsto> Dir)"

text \<open>
  A folder \<^verbatim>\<open>/models\<close> in which every name of the Original model is a directory: the
  disk holds no regular file at all.
\<close>

definition folder_of_directories :: filesystem where
  "folder_of_directories =
     (map_of (map (\<lambda>name. (joinpath ''/models'' name, Dir)) ORIGINAL_EXPECTED))
       (''/models'' \<mapsto> Dir)"

text \<open>
  A Linux host on which nothing is installed yet: the system interpreter runs the script,
  the disk is empty, every child process succeeds, and the name of the environment
  resolves to a directory of the user.
\<close>

definition linux_host :: world where
  "linux_host =
     \<lparr>platform_system = ''Linux'',
      sys_executable = ''/usr/bin/python3'',
      script_file = ''ChatterboxInstaller.py'',
      version_info = (3, 11),
      resolve = (\<lambda>p. if p = VENV_NAME then ''/home/user/Chatterbox_TTS'' else p),
      stdin = [],
      console = [],
      fs = Map.empty,
      proc = (\<lambda>n. Returncode 0),
      commands = [],
      remote = Map.empty,
      fetched = [],
      copied = []\<rparr>"






text \<open>A Windows host whose user asks for the Original model by download and for ROCm.\<close>

definition windows_rocm :: world where
  "windows_rocm =
     linux_host\<lparr>platform_system := ''Windows'', stdin := [Line ''1'', Line ''y'', Line ''2'']\<rparr>"

text \<open>A user who types a word, then a number that is too large, then a valid choice.\<close>

definition hesitant_user :: world where
  "hesitant_user = linux_host\<lparr>stdin := [Line ''two'', Line ''7'', Line '' 2 '']\<rparr>"

text \<open>A model directory that already holds the four files of the Original model.\<close>

definition model_files_present :: world where
  "model_files_present =
     linux_host
       \<lparr>fs := (map_of (map (\<lambda>name. (joinpath MODEL_DIR name, File ''old'')) ORIGINAL_EXPECTED))
                 (MODEL_DIR \<mapsto> Dir)\<rparr>"




section \<open>The manifests\<close>

lemma split_on_not_Nil: "split_on c s \<noteq> []"
  by (induction s) (auto split: list.splits)

lemma original_filenames: "map url_filename ORIGINAL_FILES = ORIGINAL_EXPECTED"
  by (simp add: ORIGINAL_FILES_def ORIGINAL_EXPECTED_def url_filename_def)

lemma turbo_filenames:
  "map url_filename TURBO_FILES =
     [''s3gen.safetensors'', ''conds.pt'', ''added_tokens.json'', ''s3gen_meanflow.safetensors'',
      ''special_tokens_map.json'', ''t3_turbo_v1.safetensors'', ''t3_turbo_v1.yaml'',
      ''tokenizer_config.json'', ''ve.safetensors'', ''vocab.json'', ''merges.txt'']"
  by (simp add: TURBO_FILES_def url_filename_def)

text \<open>
  Claim C3, as the specification states it: no filename is expected for both the Original
  and the Turbo model. It fails: \<^verbatim>\<open>ve.safetensors\<close> (and \<^verbatim>\<open>s3gen.safetensors\<close>) stands in
  both lists.
\<close>

theorem expected_sets_not_disjoint:
  "set ORIGINAL_EXPECTED \<inter> set TURBO_EXPECTED \<noteq> {}"
proof -
  have "''ve.safetensors'' \<in> set ORIGINAL_EXPECTED \<inter> set TURBO_EXPECTED"
    by (simp add: ORIGINAL_EXPECTED_def TURBO_EXPECTED_def)
  then show ?thesis by blast
qed

text \<open>
  Claim C3, amended: the two lists of expected filenames are fixed, neither repeats a name,
  and the names they share are exactly \<^verbatim>\<open>s3gen.safetensors\<close> and \<^verbatim>\<open>ve.safetensors\<close>; every
  other name belongs to one model only.
\<close>

theorem expected_sets_overlap:
  "set ORIGINAL_EXPECTED \<inter> set TURBO_EXPECTED = {''s3gen.safetensors'', ''ve.safetensors''}
   \<and> distinct ORIGINAL_EXPECTED \<and> distinct TURBO_EXPECTED"
  by (auto simp add: ORIGINAL_EXPECTED_def TURBO_EXPECTED_def)

text \<open>
  Claim C6: the name derived from a locator is the last segment of its path without the
  query string. For the Original model the derived names are the expected list, entry by
  entry. For the Turbo model they are the expected names as a set, the eleven locators
  giving eleven different names, so that locators and expected names correspond one to one
  (the expected list is sorted by name, the locator list is not).
\<close>

theorem manifest_filenames_correspond:
  "map url_filename ORIGINAL_FILES = ORIGINAL_EXPECTED
   \<and> distinct (map url_filename ORIGINAL_FILES)
   \<and> set (map url_filename TURBO_FILES) = set TURBO_EXPECTED
   \<and> distinct (map url_filename TURBO_FILES)
   \<and> length TURBO_FILES = length TURBO_EXPECTED"
proof -
  have "distinct (map url_filename ORIGINAL_FILES)"
    unfolding original_filenames by (simp add: ORIGINAL_EXPECTED_def)
  moreover have "set (map url_filename TURBO_FILES) = set TURBO_EXPECTED"
    unfolding turbo_filenames by (auto simp add: TURBO_EXPECTED_def)
  moreover have "distinct (map url_filename TURBO_FILES)"
    unfolding turbo_filenames by simp
  moreover have "length TURBO_FILES = length TURBO_EXPECTED"
    by (simp add: TURBO_FILES_def TURBO_EXPECTED_def)
  ultimately show ?thesis
    using original_filenames by simp
qed


section \<open>Validation\<close>

text \<open>
  Claim C4: validation accepts exactly when the folder exists, is a directory, and every
  expected name exists under it. A folder that is missing or not a directory is refused
  with the message for that; otherwise the refusal lists the names that do not exist, and
  only those, in the order of the expected list.
\<close>

theorem validate_user_supplied_files_spec:
  "validate_user_supplied_files f folder expected =
     (if exists_path f folder \<and> is_dir f folder
          \<and> (\<forall>file\<in>set expected. exists_path f (joinpath folder file))
      then (True, ''All files present'')
      else if \<not> (exists_path f folder \<and> is_dir f folder)
      then (False, ''Folder does not exist or is not a directory'')
      else (False, ''Missing files: ''
              @ join '', '' (filter (\<lambda>file. \<not> exists_path f (joinpath folder file)) expected)))"
  by (auto simp add: validate_user_supplied_files_def missing_files_def filter_empty_conv)

theorem validate_user_supplied_files_spec_witness:
  "validate_user_supplied_files turbo_folder_without_vocab ''/models'' TURBO_EXPECTED
     = (False, ''Missing files: vocab.json'')"
  using validate_user_supplied_files_spec [of turbo_folder_without_vocab "''/models''" TURBO_EXPECTED]
  by (simp add: turbo_folder_without_vocab_def TURBO_EXPECTED_def exists_path_def is_dir_def
        joinpath_def)

text \<open>
  Claim C9: validation asks only whether a path exists. A folder in which every expected
  name is a directory is accepted, although it holds no regular file of any of the names.
\<close>

theorem validation_accepts_directories:
  "is_dir f folder \<Longrightarrow> \<forall>file\<in>set expected. f (joinpath folder file) = Some Dir
   \<Longrightarrow> validate_user_supplied_files f folder expected = (True, ''All files present'')"
  by (auto simp add: validate_user_supplied_files_def missing_files_def filter_empty_conv
        exists_path_def is_dir_def)

theorem validation_accepts_directories_witness:
  "(\<forall>p content. folder_of_directories p \<noteq> Some (File content)) \<and>
   validate_user_supplied_files folder_of_directories ''/models'' ORIGINAL_EXPECTED
     = (True, ''All files present'')"
proof -
  have d: "is_dir folder_of_directories ''/models''"
    by (simp add: folder_of_directories_def is_dir_def)
  have a: "\<forall>file\<in>set ORIGINAL_EXPECTED.
             folder_of_directories (joinpath ''/models'' file) = Some Dir"
    by (simp add: folder_of_directories_def ORIGINAL_EXPECTED_def joinpath_def)
  have n: "\<forall>p content. folder_of_directories p \<noteq> Some (File content)"
    by (simp add: folder_of_directories_def ORIGINAL_EXPECTED_def joinpath_def)
  from validation_accepts_directories [OF d a] n show ?thesis by simp
qed


section \<open>Facts about the console and child processes\<close>

lemma emit_fields [simp]:
  "fs (emit m w) = fs w" "commands (emit m w) = commands w" "stdin (emit m w) = stdin w"
  "proc (emit m w) = proc w" "resolve (emit m w) = resolve w"
  "sys_executable (emit m w) = sys_executable w" "script_file (emit m w) = script_file w"
  "fetched (emit m w) = fetched w" "copied (emit m w) = copied w" "remote (emit m w) = remote w"
  "platform_system (emit m w) = platform_system w" "version_info (emit m w) = version_info w"
  by (simp_all add: emit_def)

lemmas print_defs = print_def print_header_def print_warning_def print_success_def print_error_def
  clear_screen_def


section \<open>The menu\<close>

lemma choice_loop_range:
  "choice_loop prompt options ins w = (Return k, w') \<Longrightarrow> 1 \<le> k \<and> k \<le> int (length options)"
proof (induction prompt options ins w rule: choice_loop.induct)
  case (1 prompt options w)
  then show ?case by simp
next
  case (2 prompt options rest w)
  then show ?case by simp
next
  case (3 prompt options s rest w)
  then show ?case
    by (auto simp add: Let_def split: option.splits if_splits)
qed

lemma get_user_choice_range:
  "get_user_choice prompt options w = (Return k, w') \<Longrightarrow> 1 \<le> k \<and> k \<le> int (length options)"
  unfolding get_user_choice_def by (rule choice_loop_range)

text \<open>
  Claim C8: \<^verbatim>\<open>get_user_choice\<close> returns only an index between 1 and the number of
  options. A line that is not a number, and a number out of range, each print their
  error and start the next round with the input that is left; Ctrl-C prints the
  cancellation and ends the process with status 0.
\<close>

theorem get_user_choice_valid_index:
  "(get_user_choice prompt options w = (Return k, w') \<longrightarrow> 1 \<le> k \<and> k \<le> int (length options))
   \<and> (stdin w = Line s # rest \<and> py_int (strip s) = None \<longrightarrow>
        get_user_choice prompt options w =
          get_user_choice prompt options
            (print_error ''Please enter a valid number''
               ((show_menu prompt options w)\<lparr>stdin := rest\<rparr>)))
   \<and> (stdin w = Line s # rest \<and> py_int (strip s) = Some n
        \<and> \<not> (1 \<le> n \<and> n \<le> int (length options)) \<longrightarrow>
        get_user_choice prompt options w =
          get_user_choice prompt options
            (print_error (''Please enter a number between 1 and '' @ str_nat (length options))
               ((show_menu prompt options w)\<lparr>stdin := rest\<rparr>)))
   \<and> (stdin w = Interrupt # rest \<longrightarrow>
        get_user_choice prompt options w =
          (SysExit 0, print (nl @ nl @ ''Installation cancelled.'')
                        ((show_menu prompt options w)\<lparr>stdin := rest\<rparr>)))"
  by (auto simp add: get_user_choice_def choice_loop_range Let_def
        print_error_def print_def emit_def show_menu_def)

theorem get_user_choice_valid_index_witness:
  "fst (get_user_choice [] backend_options hesitant_user) = Return 2
   \<and> (1::int) \<le> 2 \<and> 2 \<le> int (length backend_options)"
proof -
  have f: "fst (get_user_choice [] backend_options hesitant_user) = Return 2"
    by code_simp
  then have "get_user_choice [] backend_options hesitant_user
               = (Return 2, snd (get_user_choice [] backend_options hesitant_user))"
    by (metis prod.collapse)
  with get_user_choice_valid_index
         [of "[]" backend_options hesitant_user 2
             "snd (get_user_choice [] backend_options hesitant_user)"]
  have "1 \<le> (2::int) \<and> 2 \<le> int (length backend_options)" by blast
  with f show ?thesis by simp
qed


section \<open>The backend\<close>

lemma main_exit_at_step2:
  assumes "lower (platform_system w0) = OS" and "OS \<in> {''windows'', ''linux''}"
    and "step1_model_selection (announce OS w0) = (Return sel, w)"
    and "step2_backend_selection OS w = (SysExit n, w2)"
  shows "entry_point w0 = (Exited n, w2)"
  using assms by (cases sel) (auto simp add: entry_point_def main_def seq_def Let_def)

text \<open>
  Claim C7: when the user has chosen backend \<open>k\<close>, step 2 ends the program with status 1
  if \<open>k\<close> is ROCm and the host is not Linux, and otherwise returns the choice with its
  name. A run on a supported host that leaves step 2 by that exit ends with status 1.
\<close>

theorem rocm_requires_linux:
  "(choose_backend w = (Return k, w1) \<longrightarrow>
      (k = 2 \<and> OS \<noteq> ''linux'' \<longrightarrow>
         step2_backend_selection OS w =
           (SysExit 1, print ''Please restart and choose a different backend.''
                         (print_error ''AMD ROCm is only supported on Linux!'' w1)))
      \<and> (\<not> (k = 2 \<and> OS \<noteq> ''linux'') \<longrightarrow>
           (\<exists>backend_name. step2_backend_selection OS w =
              (Return (k, backend_name), print (nl @ ''You selected: '' @ backend_name) w1))))
   \<and> (lower (platform_system w0) = OS \<and> OS \<in> {''windows'', ''linux''}
        \<and> step1_model_selection (announce OS w0) = (Return sel, w)
        \<and> step2_backend_selection OS w = (SysExit 1, w2) \<longrightarrow>
        entry_point w0 = (Exited 1, w2))"
proof (intro conjI impI)
  assume c: "choose_backend w = (Return k, w1)"
  then have r: "1 \<le> k \<and> k \<le> 3"
    using get_user_choice_range [of "[]" backend_options _ k w1]
    by (simp add: choose_backend_def backend_options_def)
  show "step2_backend_selection OS w =
           (SysExit 1, print ''Please restart and choose a different backend.''
                         (print_error ''AMD ROCm is only supported on Linux!'' w1))"
    if "k = 2 \<and> OS \<noteq> ''linux''"
    using c that by (simp add: step2_backend_selection_def seq_def validate_backend_def)
  show "\<exists>backend_name. step2_backend_selection OS w =
              (Return (k, backend_name), print (nl @ ''You selected: '' @ backend_name) w1)"
    if "\<not> (k = 2 \<and> OS \<noteq> ''linux'')"
  proof -
    from r have "k = 1 \<or> k = 2 \<or> k = 3" by arith
    then show ?thesis
      using c that
      by (auto simp add: step2_backend_selection_def seq_def validate_backend_def py_index_def)
  qed
next
  assume "lower (platform_system w0) = OS \<and> OS \<in> {''windows'', ''linux''}
        \<and> step1_model_selection (announce OS w0) = (Return sel, w)
        \<and> step2_backend_selection OS w = (SysExit 1, w2)"
  then show "entry_point w0 = (Exited 1, w2)"
    using main_exit_at_step2 [of w0 OS sel w 1 w2] by blast
qed

theorem rocm_requires_linux_witness:
  "fst (entry_point windows_rocm) = Exited 1"
proof -
  let ?w = "snd (step1_model_selection (announce ''windows'' windows_rocm))"
  have os: "lower (platform_system windows_rocm) = ''windows''"
    by code_simp
  have "fst (step1_model_selection (announce ''windows'' windows_rocm))
          = Return (False, False, ''Original'', None)"
    by code_simp
  then have s1: "step1_model_selection (announce ''windows'' windows_rocm)
                   = (Return (False, False, ''Original'', None), ?w)"
    by (metis prod.collapse)
  have "fst (choose_backend ?w) = Return 2"
    by code_simp
  then have cb: "choose_backend ?w = (Return 2, snd (choose_backend ?w))"
    by (metis prod.collapse)
  have ne: "''windows'' \<noteq> ''linux''" by simp
  note t = rocm_requires_linux
             [of ?w 2 "snd (choose_backend ?w)" "''windows''" windows_rocm
                 "(False, False, ''Original'', None)"]
  from t cb ne have "step2_backend_selection ''windows'' ?w =
           (SysExit 1, print ''Please restart and choose a different backend.''
                         (print_error ''AMD ROCm is only supported on Linux!''
                            (snd (choose_backend ?w))))"
    by blast
  with t os s1 have "entry_point windows_rocm =
           (Exited 1, print ''Please restart and choose a different backend.''
                         (print_error ''AMD ROCm is only supported on Linux!''
                            (snd (choose_backend ?w))))"
    by blast
  then show ?thesis by simp
qed


section \<open>The virtual environment\<close>

lemma venv_paths_emit [simp]: "venv_paths OS (emit m w) = venv_paths OS w"
  by (simp add: venv_paths_def)
















section \<open>Installing packages\<close>

lemma pip_command_emit [simp]: "pip_command e (emit m w) args = pip_command e w args"
  by (simp add: pip_command_def)














section \<open>Downloading the model files\<close>

lemma download_files_present:
  "\<forall>url\<in>set urls. exists_path (fs w) (joinpath model_path (url_filename url)) \<Longrightarrow>
   download_files model_path urls w =
     (Return (), w\<lparr>console := console w @ map (\<lambda>url. Success (url_filename url @ '' already exists, skipping'')) urls\<rparr>)"
proof (induction urls arbitrary: w)
  case Nil
  then show ?case by simp
next
  case (Cons url urls)
  let ?w1 = "print_success (url_filename url @ '' already exists, skipping'') w"
  have "\<forall>u\<in>set urls. exists_path (fs ?w1) (joinpath model_path (url_filename u))"
    using Cons.prems by (simp add: print_defs)
  from Cons.IH [OF this] Cons.prems show ?case
    by (simp add: Let_def seq_def print_defs emit_def)
qed

lemma download_file_shape:
  "download_file url dest w = (r, w') \<Longrightarrow>
     (r = Return () \<and> exists_path (fs w') dest \<and> (\<forall>p. p \<noteq> dest \<longrightarrow> fs w' p = fs w p))
     \<or> ((\<exists>ex. r = Raise ex) \<and> fs w' = fs w)"
  by (auto simp add: download_file_def urlretrieve_def Let_def seq_def try_except_def print_defs
        exists_path_def split: option.splits if_splits)

lemma download_files_keeps:
  "download_files model_path urls w = (r, w') \<Longrightarrow> exists_path (fs w) p \<Longrightarrow> exists_path (fs w') p"
proof (induction urls arbitrary: w)
  case Nil
  then show ?case by simp
next
  case (Cons url urls)
  let ?dest = "joinpath model_path (url_filename url)"
  show ?case
  proof (cases "exists_path (fs w) ?dest")
    case True
    with Cons.prems have "download_files model_path urls
        (print_success (url_filename url @ '' already exists, skipping'') w) = (r, w')"
      by (simp add: Let_def seq_def)
    from Cons.IH [OF this] Cons.prems(2) show ?thesis by (simp add: print_defs)
  next
    case False
    obtain r1 w1 where d: "download_file url ?dest w = (r1, w1)" by (cases "download_file url ?dest w")
    from download_file_shape [OF d] Cons.prems(2) have k: "exists_path (fs w1) p"
      by (cases "p = ?dest") (auto simp add: exists_path_def)
    show ?thesis
    proof (cases r1)
      case (Return u)
      with Cons.prems(1) False d have "download_files model_path urls w1 = (r, w')"
        by (simp add: Let_def seq_def)
      from Cons.IH [OF this k] show ?thesis .
    qed (use Cons.prems(1) False d k in \<open>auto simp add: Let_def seq_def\<close>)
  qed
qed

lemma download_files_complete:
  "download_files model_path urls w = (Return (), w') \<Longrightarrow>
   \<forall>url\<in>set urls. exists_path (fs w') (joinpath model_path (url_filename url))"
proof (induction urls arbitrary: w)
  case Nil
  then show ?case by simp
next
  case (Cons url urls)
  let ?dest = "joinpath model_path (url_filename url)"
  obtain r1 w1 where s: "(if \<not> exists_path (fs w) ?dest then download_file url ?dest w
        else (Return (), print_success (url_filename url @ '' already exists, skipping'') w)) = (r1, w1)"
    by (metis surj_pair)
  from Cons.prems s have r1: "r1 = Return ()" and t: "download_files model_path urls w1 = (Return (), w')"
    by (auto simp add: Let_def seq_def split: res.splits)
  have "exists_path (fs w1) ?dest"
  proof (cases "exists_path (fs w) ?dest")
    case True
    with s show ?thesis by (auto simp add: print_defs)
  next
    case False
    with s have "download_file url ?dest w = (r1, w1)" by simp
    from download_file_shape [OF this] r1 show ?thesis by auto
  qed
  from download_files_keeps [OF t this] Cons.IH [OF t] show ?case by simp
qed

text \<open>
  Claim C5: in the download loop, an entry whose destination exists prints the skip notice
  and goes on to the next entry without a fetch. When every destination exists, the loop
  returns, requests no URL, leaves the disk as it is and prints one skip notice for each
  entry. That is the case in particular when the loop is run again after a run that
  returned.
\<close>

theorem download_skips_present_files:
  "(exists_path (fs w) (joinpath model_path (url_filename url)) \<longrightarrow>
      download_files model_path (url # urls) w =
        download_files model_path urls
          (print_success (url_filename url @ '' already exists, skipping'') w))
   \<and> ((\<forall>u\<in>set urls. exists_path (fs w) (joinpath model_path (url_filename u))) \<longrightarrow>
        download_files model_path urls w =
          (Return (),
           w\<lparr>console := console w
                @ map (\<lambda>u. Success (url_filename u @ '' already exists, skipping'')) urls\<rparr>))
   \<and> (download_files model_path urls w = (Return (), w') \<longrightarrow>
        download_files model_path urls w' =
          (Return (),
           w'\<lparr>console := console w'
                 @ map (\<lambda>u. Success (url_filename u @ '' already exists, skipping'')) urls\<rparr>))"
proof (intro conjI impI)
  assume "exists_path (fs w) (joinpath model_path (url_filename url))"
  then show "download_files model_path (url # urls) w =
        download_files model_path urls
          (print_success (url_filename url @ '' already exists, skipping'') w)"
    by (simp add: Let_def seq_def)
next
  assume "\<forall>u\<in>set urls. exists_path (fs w) (joinpath model_path (url_filename u))"
  then show "download_files model_path urls w =
          (Return (),
           w\<lparr>console := console w
                @ map (\<lambda>u. Success (url_filename u @ '' already exists, skipping'')) urls\<rparr>)"
    by (rule download_files_present)
next
  assume "download_files model_path urls w = (Return (), w')"
  from download_files_present [OF download_files_complete [OF this]]
  show "download_files model_path urls w' =
          (Return (),
           w'\<lparr>console := console w'
                 @ map (\<lambda>u. Success (url_filename u @ '' already exists, skipping'')) urls\<rparr>)" .
qed


theorem download_skips_present_files_witness:
  "fst (download_files MODEL_DIR ORIGINAL_FILES model_files_present) = Return ()
   \<and> fetched (snd (download_files MODEL_DIR ORIGINAL_FILES model_files_present)) = []
   \<and> fs (snd (download_files MODEL_DIR ORIGINAL_FILES model_files_present)) = fs model_files_present
   \<and> console (snd (download_files MODEL_DIR ORIGINAL_FILES model_files_present))
       = [Success ''t3_cfg.safetensors already exists, skipping'',
          Success ''s3gen.safetensors already exists, skipping'',
          Success ''tokenizer.json already exists, skipping'',
          Success ''ve.safetensors already exists, skipping'']"
proof -
  have n: "map url_filename ORIGINAL_FILES = ORIGINAL_EXPECTED"
    by (rule original_filenames)
  have "\<forall>name\<in>set ORIGINAL_EXPECTED. exists_path (fs model_files_present) (joinpath MODEL_DIR name)"
    by (simp add: model_files_present_def linux_host_def ORIGINAL_EXPECTED_def exists_path_def
          joinpath_def MODEL_DIR_def)
  then have "\<forall>name\<in>set (map url_filename ORIGINAL_FILES).
               exists_path (fs model_files_present) (joinpath MODEL_DIR name)"
    unfolding n .
  then have a: "\<forall>u\<in>set ORIGINAL_FILES.
               exists_path (fs model_files_present) (joinpath MODEL_DIR (url_filename u))"
    by simp
  have m: "map (\<lambda>u. Success (url_filename u @ '' already exists, skipping'')) ORIGINAL_FILES
             = map (\<lambda>name. Success (name @ '' already exists, skipping'')) (map url_filename ORIGINAL_FILES)"
    by simp
  have c: "console model_files_present = []" and f: "fetched model_files_present = []"
    by (simp_all add: model_files_present_def linux_host_def)
  from download_skips_present_files [of model_files_present MODEL_DIR _ ORIGINAL_FILES] a
  have "download_files MODEL_DIR ORIGINAL_FILES model_files_present =
          (Return (),
           model_files_present\<lparr>console := console model_files_present
                @ map (\<lambda>u. Success (url_filename u @ '' already exists, skipping'')) ORIGINAL_FILES\<rparr>)"
    by blast
  then show ?thesis
    unfolding m n by (simp add: c f ORIGINAL_EXPECTED_def)
qed


section \<open>Copying the model files\<close>

lemma joinpath_inject [simp]: "joinpath p a = joinpath p b \<longleftrightarrow> a = b"
  by (simp add: joinpath_def)








end
